theory Spec2Isabelle
  imports Complex_Main
begin

section \<open>The network graph component: data model\<close>

text \<open>
  The component \<^verbatim>\<open>src/components/network_digitaltwin.js\<close> reads a GEXF text, computes node
  degrees, filters nodes and edges by two thresholds, classifies node ids into categories
  and hands the visible graph to a d3 force simulation whose tick and drag handlers it
  supplies. The definitions below follow that file function by function.
\<close>

subsection \<open>JavaScript numbers and values\<close>

text \<open>
  A JavaScript number is NaN, an infinity or a finite double. Only comparisons of numbers
  are modelled here; a comparison of two finite doubles agrees with the comparison of the
  reals they denote, and every comparison with NaN is false.
\<close>

datatype jsnum = NaN | NegInf | Fin real | PosInf

fun js_ge :: "jsnum \<Rightarrow> jsnum \<Rightarrow> bool" where
  "js_ge NaN b = False"
| "js_ge a NaN = False"
| "js_ge PosInf b = True"
| "js_ge a NegInf = True"
| "js_ge (Fin a) (Fin b) = (b \<le> a)"
| "js_ge (Fin a) PosInf = False"
| "js_ge NegInf b = False"

fun js_gt :: "jsnum \<Rightarrow> jsnum \<Rightarrow> bool" where
  "js_gt NaN b = False"
| "js_gt a NaN = False"
| "js_gt NegInf b = False"
| "js_gt a PosInf = False"
| "js_gt (Fin a) (Fin b) = (b < a)"
| "js_gt (Fin a) NegInf = True"
| "js_gt PosInf b = True"

text \<open>
  The values that can be stored under a key of the \<^verbatim>\<open>nodeDegrees\<close> object: a count, or a
  value that is not a number. The latter stands for what a lookup through the prototype
  chain of a plain object returns (\<^verbatim>\<open>Object.prototype\<close> itself for the key \<^verbatim>\<open>__proto__\<close>, a
  built-in function for \<^verbatim>\<open>constructor\<close>, \<^verbatim>\<open>toString\<close>, ...) and for the string that \<^verbatim>\<open>+ 1\<close>
  makes of such a value. All of these are truthy.
\<close>

datatype jsval = Num nat | NotNum

text \<open>\<^verbatim>\<open>v || 0\<close>, where \<open>None\<close> is \<^verbatim>\<open>undefined\<close>.\<close>

fun or_zero :: "jsval option \<Rightarrow> jsval" where
  "or_zero None = Num 0"
| "or_zero (Some (Num n)) = Num n"
| "or_zero (Some NotNum) = NotNum"

text \<open>\<^verbatim>\<open>v + 1\<close>: addition on a number, string concatenation on everything else.\<close>

fun plus_one :: "jsval \<Rightarrow> jsval" where
  "plus_one (Num n) = Num (Suc n)"
| "plus_one NotNum = NotNum"

text \<open>The number a value is converted to when it is compared with a number.\<close>

fun toNumber :: "jsval \<Rightarrow> jsnum" where
  "toNumber (Num n) = Fin (real n)"
| "toNumber NotNum = NaN"

subsection \<open>Strings\<close>

text \<open>\<^verbatim>\<open>s.startsWith(p)\<close>, \<^verbatim>\<open>s.endsWith(p)\<close> and \<^verbatim>\<open>s.includes(p)\<close>.\<close>

fun startsWith :: "string \<Rightarrow> string \<Rightarrow> bool" where
  "startsWith s [] = True"
| "startsWith [] (p # ps) = False"
| "startsWith (c # cs) (p # ps) = (c = p \<and> startsWith cs ps)"

definition endsWith :: "string \<Rightarrow> string \<Rightarrow> bool" where
  "endsWith s p = startsWith (rev s) (rev p)"

fun str_includes :: "string \<Rightarrow> string \<Rightarrow> bool" where
  "str_includes [] p = (p = [])"
| "str_includes (c # cs) p = (startsWith (c # cs) p \<or> str_includes cs p)"

definition isUpper :: "char \<Rightarrow> bool" where
  "isUpper c = (c \<in> set ''ABCDEFGHIJKLMNOPQRSTUVWXYZ'')"

definition isDigit :: "char \<Rightarrow> bool" where
  "isDigit c = (c \<in> set ''0123456789'')"

text \<open>
  The regular expression \<^verbatim>\<open>/^[A-Z]+\d*$/\<close> as a backtracking matcher: \<open>match_digits\<close> is
  \<^verbatim>\<open>\d*$\<close>, \<open>match_uppers\<close> is the rest of \<^verbatim>\<open>[A-Z]+\<close> after its first letter, followed by
  \<^verbatim>\<open>\d*$\<close>.
\<close>

fun match_digits :: "string \<Rightarrow> bool" where
  "match_digits [] = True"
| "match_digits (c # cs) = (isDigit c \<and> match_digits cs)"

fun match_uppers :: "string \<Rightarrow> bool" where
  "match_uppers [] = True"
| "match_uppers (c # cs) = ((isUpper c \<and> match_uppers cs) \<or> match_digits (c # cs))"

fun regex_test :: "string \<Rightarrow> bool" where
  "regex_test [] = False"
| "regex_test (c # cs) = (isUpper c \<and> match_uppers cs)"

subsection \<open>Node categories\<close>

text \<open>
  \<^verbatim>\<open>nodeCategories\<close> is an object literal; \<^verbatim>\<open>Object.entries\<close> lists its keys in the order
  they are written, so it is an association list of name, colour and test.
\<close>

definition test_Signaling :: "string \<Rightarrow> bool" where
  "test_Signaling i = (str_includes i ''MAPK'' \<or> str_includes i ''PIK3'' \<or> str_includes i ''AKT''
     \<or> str_includes i ''SRC'' \<or> str_includes i ''JAK'' \<or> str_includes i ''STAT''
     \<or> str_includes i ''RAF'' \<or> str_includes i ''RAS'')"

definition test_TranscriptionFactors :: "string \<Rightarrow> bool" where
  "test_TranscriptionFactors i = (4 \<le> length i \<and> regex_test i \<and> \<not> startsWith i ''RPL''
     \<and> \<not> startsWith i ''RPS'' \<and> \<not> startsWith i ''MT'')"

definition test_Receptors :: "string \<Rightarrow> bool" where
  "test_Receptors i = (str_includes i ''EGFR'' \<or> endsWith i ''R'' \<or> str_includes i ''CD''
     \<or> str_includes i ''HLA'' \<or> str_includes i ''TLR'')"

definition test_Immune :: "string \<Rightarrow> bool" where
  "test_Immune i = (startsWith i ''IL'' \<or> startsWith i ''IFN'' \<or> startsWith i ''TNF''
     \<or> startsWith i ''CD'' \<or> startsWith i ''HLA'' \<or> str_includes i ''TLR'')"

definition cancerGenes :: "string list" where
  "cancerGenes = [''EGFR'', ''PTEN'', ''TP53'', ''MYC'', ''CTNNB1'', ''KRAS'', ''BRAF'',
     ''CDKN2A'', ''PIK3CA'', ''ATM'', ''MDM2'']"

definition test_Cancer :: "string \<Rightarrow> bool" where
  "test_Cancer i = (i \<in> set cancerGenes)"

definition test_Ribosomal :: "string \<Rightarrow> bool" where
  "test_Ribosomal i = (startsWith i ''RPL'' \<or> startsWith i ''RPS'')"

definition test_CellCycle :: "string \<Rightarrow> bool" where
  "test_CellCycle i = (str_includes i ''CDK'' \<or> str_includes i ''CCND'' \<or> str_includes i ''CDC''
     \<or> str_includes i ''CDKN'')"

definition test_Other :: "string \<Rightarrow> bool" where
  "test_Other i = True"

definition nodeCategories :: "(string \<times> string \<times> (string \<Rightarrow> bool)) list" where
  "nodeCategories =
    [(''Signaling'', ''#FF5733'', test_Signaling),
     (''Transcription Factors'', ''#33A1FF'', test_TranscriptionFactors),
     (''Receptors'', ''#33FF57'', test_Receptors),
     (''Immune'', ''#B533FF'', test_Immune),
     (''Cancer'', ''#FF33A1'', test_Cancer),
     (''Ribosomal'', ''#33FFF9'', test_Ribosomal),
     (''Cell Cycle'', ''#FFBD33'', test_CellCycle),
     (''Other'', ''#AAAAAA'', test_Other)]"

text \<open>
  The loop of \<^verbatim>\<open>getNodeCategory\<close> over the entries: the entry named Other is skipped, the
  first other entry whose test accepts the id is returned, and Other is the default.
\<close>

fun category_loop :: "(string \<times> string \<times> (string \<Rightarrow> bool)) list \<Rightarrow> string \<Rightarrow> string" where
  "category_loop [] i = ''Other''"
| "category_loop ((category, color, test) # rest) i =
     (if category = ''Other'' then category_loop rest i
      else if test i then category
      else category_loop rest i)"

subsection \<open>Nodes and edges\<close>

text \<open>
  The parser pushes \<^verbatim>\<open>{id, label}\<close> for a node and \<^verbatim>\<open>{source, target, id, weight}\<close> for an
  edge; the weight is \<^verbatim>\<open>parseFloat\<close> of an arbitrary attribute text and may be NaN. The
  degree calculation adds \<^verbatim>\<open>degree\<close> to a node, and d3 adds the position, the velocity
  and the pin \<^verbatim>\<open>fx\<close>, \<^verbatim>\<open>fy\<close> (\<open>None\<close> is \<^verbatim>\<open>null\<close>). Positions are taken to be finite
  numbers and are modelled as reals.
\<close>

record gexf_node =
  node_id :: string
  label :: string

record node = gexf_node +
  degree :: jsval

text \<open>
  The \<^verbatim>\<open>source\<close> and \<^verbatim>\<open>target\<close> of an edge object: the id string that the parser stores,
  or, once the link force of d3 has been initialised with the edge, the node object with
  that id, which is represented by its id.
\<close>

datatype endpoint = Id string | NodeRef string

record edge =
  source :: endpoint
  target :: endpoint
  edge_id :: nat
  weight :: jsnum

record sim_node = node +
  x :: real
  y :: real
  vx :: real
  vy :: real
  fx :: "real option"
  fy :: "real option"

definition getNodeCategory :: "'a gexf_node_scheme \<Rightarrow> string" where
  "getNodeCategory n = category_loop nodeCategories (node_id n)"

subsection \<open>Degree calculation\<close>

text \<open>
  \<^verbatim>\<open>nodeDegrees\<close> is a plain object used as a dictionary. Its own properties are a map;
  a read of a key that is not an own property falls through to \<^verbatim>\<open>Object.prototype\<close>, and
  a write to the key \<^verbatim>\<open>__proto__\<close> calls the inherited setter, which ignores every
  value that is not an object (the program only ever writes numbers and strings).
\<close>

type_synonym jsobj = "string \<rightharpoonup> jsval"

definition objectPrototypeKeys :: "string list" where
  "objectPrototypeKeys = [''constructor'', ''hasOwnProperty'', ''isPrototypeOf'',
     ''propertyIsEnumerable'', ''toLocaleString'', ''toString'', ''valueOf'',
     ''__defineGetter__'', ''__defineSetter__'', ''__lookupGetter__'', ''__lookupSetter__'',
     ''__proto__'']"

definition obj_get :: "jsobj \<Rightarrow> string \<Rightarrow> jsval option" where
  "obj_get ob k =
     (case ob k of Some v \<Rightarrow> Some v
      | None \<Rightarrow> if k \<in> set objectPrototypeKeys then Some NotNum else None)"

definition obj_set :: "jsobj \<Rightarrow> string \<Rightarrow> jsval \<Rightarrow> jsobj" where
  "obj_set ob k v = (if k = ''__proto__'' then ob else ob(k \<mapsto> v))"

text \<open>
  The property key of \<^verbatim>\<open>nodeDegrees[edge.source]\<close>: the string itself, and for a node object
  the string that every plain object is converted to.
\<close>

fun property_key :: "endpoint \<Rightarrow> string" where
  "property_key (Id k) = k"
| "property_key (NodeRef k) = ''[object Object]''"

definition init_degrees :: "gexf_node list \<Rightarrow> jsobj" where
  "init_degrees nodes = fold (\<lambda>n ob. obj_set ob (node_id n) (Num 0)) nodes Map.empty"

definition count_edge :: "edge \<Rightarrow> jsobj \<Rightarrow> jsobj" where
  "count_edge e ob =
     (let ob1 = obj_set ob (property_key (source e))
                  (plus_one (or_zero (obj_get ob (property_key (source e)))))
      in obj_set ob1 (property_key (target e))
                  (plus_one (or_zero (obj_get ob1 (property_key (target e))))))"

definition nodeDegrees :: "gexf_node list \<Rightarrow> edge list \<Rightarrow> jsobj" where
  "nodeDegrees nodes edges = fold count_edge edges (init_degrees nodes)"

definition addDegree :: "jsobj \<Rightarrow> gexf_node \<Rightarrow> node" where
  "addDegree nd n =
     \<lparr>node_id = node_id n, label = label n, degree = or_zero (obj_get nd (node_id n))\<rparr>"

definition withDegrees :: "gexf_node list \<Rightarrow> edge list \<Rightarrow> node list" where
  "withDegrees nodes edges = map (addDegree (nodeDegrees nodes edges)) nodes"

subsection \<open>Filtering\<close>

text \<open>
  A \<^verbatim>\<open>Set\<close> of strings: its elements in insertion order, each once. \<^verbatim>\<open>has\<close> is asked for
  the source or target of an edge; a node object is never equal to a string.
\<close>

definition set_add :: "string list \<Rightarrow> string \<Rightarrow> string list" where
  "set_add s k = (if k \<in> set s then s else s @ [k])"

definition newSet :: "string list \<Rightarrow> string list" where
  "newSet ks = fold (\<lambda>k s. set_add s k) ks []"

fun set_has :: "string list \<Rightarrow> endpoint \<Rightarrow> bool" where
  "set_has s (Id k) = (k \<in> set s)"
| "set_has s (NodeRef k) = False"

definition filteredNodes :: "node list \<Rightarrow> jsnum \<Rightarrow> node list" where
  "filteredNodes nodes nodeDegreeThreshold =
     filter (\<lambda>n. js_gt (toNumber (degree n)) nodeDegreeThreshold) nodes"

definition filteredNodeIds :: "node list \<Rightarrow> jsnum \<Rightarrow> string list" where
  "filteredNodeIds nodes nodeDegreeThreshold =
     newSet (map node_id (filteredNodes nodes nodeDegreeThreshold))"

definition filteredEdges :: "node list \<Rightarrow> edge list \<Rightarrow> jsnum \<Rightarrow> jsnum \<Rightarrow> edge list" where
  "filteredEdges nodes edges nodeDegreeThreshold weightThreshold =
     filter (\<lambda>e. js_ge (weight e) weightThreshold
                \<and> set_has (filteredNodeIds nodes nodeDegreeThreshold) (source e)
                \<and> set_has (filteredNodeIds nodes nodeDegreeThreshold) (target e)) edges"

text \<open>
  \<^verbatim>\<open>d3.forceLink(filteredEdges).id(d => d.id)\<close> is library code and not part of the
  repository. Modelled from the use the source makes of it (the tick handler reads
  \<^verbatim>\<open>d.source.x\<close> of an edge): when the link force is initialised, the source and the target
  of each edge it is given are replaced by the node object with that id, unless they are
  objects already.
\<close>

fun link_endpoint :: "endpoint \<Rightarrow> endpoint" where
  "link_endpoint (Id k) = NodeRef k"
| "link_endpoint (NodeRef k) = NodeRef k"

definition forceLink :: "edge \<Rightarrow> edge" where
  "forceLink e = e\<lparr>source := link_endpoint (source e), target := link_endpoint (target e)\<rparr>"

text \<open>
  \<^verbatim>\<open>data.edges\<close> after one run of the effect with the given thresholds: \<^verbatim>\<open>filter\<close> returns
  the edge objects of \<^verbatim>\<open>data.edges\<close> themselves, so the edges that passed the filter are
  the ones the link force has changed, and the next run of the effect (after any change of
  a threshold, the highlight, the labels or the selection) filters these.
\<close>

definition edges_after_effect :: "node list \<Rightarrow> edge list \<Rightarrow> jsnum \<Rightarrow> jsnum \<Rightarrow> edge list" where
  "edges_after_effect nodes edges nodeDegreeThreshold weightThreshold =
     map (\<lambda>e. if js_ge (weight e) weightThreshold
                  \<and> set_has (filteredNodeIds nodes nodeDegreeThreshold) (source e)
                  \<and> set_has (filteredNodeIds nodes nodeDegreeThreshold) (target e)
               then forceLink e else e) edges"




subsection \<open>Simulation tick\<close>

definition width :: real where
  "width = 800"

definition height :: real where
  "height = 600"

text \<open>The radius attribute of a node's circle, \<^verbatim>\<open>Math.sqrt(d.degree) * 2 + 3\<close>.\<close>

definition radius :: "'a node_scheme \<Rightarrow> jsnum" where
  "radius d = (case degree d of Num k \<Rightarrow> Fin (sqrt (real k) * 2 + 3) | NotNum \<Rightarrow> NaN)"

text \<open>
  The tick handler sets, for each node, \<^verbatim>\<open>cx = d.x = Math.max(5, Math.min(width - 5, d.x))\<close>
  and the same for \<^verbatim>\<open>cy\<close> with the height: the rendered position is what it leaves in
  \<open>x\<close> and \<open>y\<close>.
\<close>

definition tick_node :: "sim_node \<Rightarrow> sim_node" where
  "tick_node d = d\<lparr>x := max 5 (min (width - 5) (x d)), y := max 5 (min (height - 5) (y d))\<rparr>"

definition tick_handler :: "sim_node list \<Rightarrow> sim_node list" where
  "tick_handler nodes = map tick_node nodes"

text \<open>
  The step of the d3 force simulation is library code and not part of the repository; the
  three definitions below model it from section 4.5 of the specification.
\<close>

type_synonym forces = "sim_node list \<Rightarrow> nat \<Rightarrow> real \<times> real \<times> real \<times> real"

text \<open>
  Modelled from the spec: the forces of a step (link, charge, centering, collision), which
  d3 implements. They are a parameter: for the node at an index they give the position
  and the velocity it has once all forces of the step have been applied. They do not touch
  the pins.
\<close>

definition apply_forces :: "forces \<Rightarrow> sim_node list \<Rightarrow> sim_node list" where
  "apply_forces F nodes =
     map (\<lambda>i. case F nodes i of (px, py, qx, qy) \<Rightarrow>
                (nodes ! i)\<lparr>x := px, y := py, vx := qx, vy := qy\<rparr>) [0..<length nodes]"

text \<open>The forces of a simulation without forces: no node is moved. Used on examples.\<close>

definition no_forces :: forces where
  "no_forces nodes i = (x (nodes ! i), y (nodes ! i), vx (nodes ! i), vy (nodes ! i))"

text \<open>
  Modelled from the spec: the integration of a step, which d3 implements. Per axis, the
  velocity of a free node is damped and added to its position; the position of a pinned
  node is forced to the pin and its velocity is set to zero.
\<close>

definition integrate :: "real \<Rightarrow> sim_node \<Rightarrow> sim_node" where
  "integrate decay d =
     (let d1 = (case fx d of None \<Rightarrow> d\<lparr>vx := vx d * decay, x := x d + vx d * decay\<rparr>
                | Some p \<Rightarrow> d\<lparr>x := p, vx := 0\<rparr>)
      in (case fy d1 of None \<Rightarrow> d1\<lparr>vy := vy d1 * decay, y := y d1 + vy d1 * decay\<rparr>
          | Some p \<Rightarrow> d1\<lparr>y := p, vy := 0\<rparr>))"

text \<open>
  Modelled from the spec: one step of the simulation, which d3 implements: the forces,
  then the integration of every node.
\<close>

definition simulation_step :: "forces \<Rightarrow> real \<Rightarrow> sim_node list \<Rightarrow> sim_node list" where
  "simulation_step F decay nodes = map (integrate decay) (apply_forces F nodes)"

text \<open>
  One tick: the simulation steps, then it calls the tick handler that the component
  registered.
\<close>

definition tick :: "forces \<Rightarrow> real \<Rightarrow> sim_node list \<Rightarrow> sim_node list" where
  "tick F decay nodes = tick_handler (simulation_step F decay nodes)"

text \<open>Any number of ticks; the forces may differ from tick to tick (they depend on alpha).\<close>

fun ticks :: "(nat \<Rightarrow> forces) \<Rightarrow> real \<Rightarrow> nat \<Rightarrow> sim_node list \<Rightarrow> sim_node list" where
  "ticks Fs decay 0 nodes = nodes"
| "ticks Fs decay (Suc k) nodes = tick (Fs k) decay (ticks Fs decay k nodes)"

subsection \<open>Drag handlers\<close>

text \<open>
  What the handlers touch of the simulation object: \<^verbatim>\<open>alphaTarget(v)\<close> stores the target,
  \<^verbatim>\<open>restart()\<close> restarts the timer that drives the steps. \<^verbatim>\<open>event.active\<close> is the number
  of other drag gestures in progress.
\<close>

record simulation =
  alphaTarget :: real
  stepping :: bool

record drag_event =
  active :: nat
  subject :: sim_node
  event_x :: real
  event_y :: real

definition dragstarted :: "drag_event \<Rightarrow> simulation \<Rightarrow> simulation \<times> sim_node" where
  "dragstarted event sim =
     ((if active event = 0 then sim\<lparr>alphaTarget := 0.3, stepping := True\<rparr> else sim),
      (subject event)\<lparr>fx := Some (x (subject event)), fy := Some (y (subject event))\<rparr>)"

definition dragged :: "drag_event \<Rightarrow> simulation \<Rightarrow> simulation \<times> sim_node" where
  "dragged event sim =
     (sim, (subject event)\<lparr>fx := Some (event_x event), fy := Some (event_y event)\<rparr>)"

definition dragended :: "drag_event \<Rightarrow> simulation \<Rightarrow> simulation \<times> sim_node" where
  "dragended event sim =
     ((if active event = 0 then sim\<lparr>alphaTarget := 0\<rparr> else sim),
      (subject event)\<lparr>fx := None, fy := None\<rparr>)"

section \<open>The string tests\<close>

text \<open>
  The three string methods and the regular expression mean what their names say: a
  prefix, a suffix, a contiguous substring, and one or more capital letters followed by
  any number of digits.
\<close>

lemma startsWith_iff: "startsWith s p \<longleftrightarrow> (\<exists>r. s = p @ r)"
  by (induction s p rule: startsWith.induct) auto

lemma endsWith_iff: "endsWith s p \<longleftrightarrow> (\<exists>a. s = a @ p)"
proof
  assume "endsWith s p"
  then obtain r where "rev s = rev p @ r"
    by (auto simp: endsWith_def startsWith_iff)
  then have "s = rev r @ p"
    by (metis rev_append rev_rev_ident)
  then show "\<exists>a. s = a @ p" ..
next
  assume "\<exists>a. s = a @ p"
  then show "endsWith s p"
    by (auto simp: endsWith_def startsWith_iff)
qed

lemma str_includes_iff: "str_includes s p \<longleftrightarrow> (\<exists>a b. s = a @ p @ b)"
proof (induction s)
  case Nil
  then show ?case by auto
next
  case (Cons c cs)
  show ?case
  proof
    assume "str_includes (c # cs) p"
    then consider "startsWith (c # cs) p" | "str_includes cs p" by auto
    then show "\<exists>a b. c # cs = a @ p @ b"
    proof cases
      case 1
      then obtain r where "c # cs = p @ r" by (auto simp: startsWith_iff)
      then have "c # cs = [] @ p @ r" by simp
      then show ?thesis by blast
    next
      case 2
      then obtain a b where "cs = a @ p @ b" using Cons.IH by blast
      then have "c # cs = (c # a) @ p @ b" by simp
      then show ?thesis by blast
    qed
  next
    assume "\<exists>a b. c # cs = a @ p @ b"
    then obtain a b where ab: "c # cs = a @ p @ b" by blast
    show "str_includes (c # cs) p"
    proof (cases a)
      case Nil
      with ab have "startsWith (c # cs) p" by (auto simp: startsWith_iff)
      then show ?thesis by simp
    next
      case (Cons a1 as)
      with ab have "cs = as @ p @ b" by simp
      then have "str_includes cs p" using Cons.IH by blast
      then show ?thesis by simp
    qed
  qed
qed

lemma match_digits_iff: "match_digits s \<longleftrightarrow> list_all isDigit s"
  by (induction s) auto

lemma match_uppers_iff:
  "match_uppers s \<longleftrightarrow> (\<exists>us ds. s = us @ ds \<and> list_all isUpper us \<and> list_all isDigit ds)"
proof (induction s)
  case Nil
  then show ?case by simp
next
  case (Cons c cs)
  show ?case
  proof
    assume "match_uppers (c # cs)"
    then consider "isUpper c" "match_uppers cs" | "match_digits (c # cs)" by auto
    then show "\<exists>us ds. c # cs = us @ ds \<and> list_all isUpper us \<and> list_all isDigit ds"
    proof cases
      case 1
      then obtain us ds where "cs = us @ ds" "list_all isUpper us" "list_all isDigit ds"
        using Cons.IH by blast
      with 1 have "c # cs = (c # us) @ ds \<and> list_all isUpper (c # us) \<and> list_all isDigit ds"
        by simp
      then show ?thesis by blast
    next
      case 2
      then have "c # cs = [] @ (c # cs) \<and> list_all isUpper [] \<and> list_all isDigit (c # cs)"
        by (simp add: match_digits_iff)
      then show ?thesis by blast
    qed
  next
    assume "\<exists>us ds. c # cs = us @ ds \<and> list_all isUpper us \<and> list_all isDigit ds"
    then obtain us ds where h: "c # cs = us @ ds" "list_all isUpper us" "list_all isDigit ds"
      by blast
    show "match_uppers (c # cs)"
    proof (cases us)
      case Nil
      with h have "match_digits (c # cs)" by (simp add: match_digits_iff)
      then show ?thesis by simp
    next
      case (Cons u us')
      with h have "isUpper c" "cs = us' @ ds" "list_all isUpper us'" by auto
      with h(3) Cons.IH show ?thesis by auto
    qed
  qed
qed

lemma regex_test_iff:
  "regex_test s \<longleftrightarrow>
     (\<exists>us ds. s = us @ ds \<and> us \<noteq> [] \<and> list_all isUpper us \<and> list_all isDigit ds)"
proof (cases s)
  case Nil
  then show ?thesis by simp
next
  case (Cons c cs)
  show ?thesis
  proof
    assume "regex_test s"
    with Cons obtain us ds where "isUpper c" "cs = us @ ds" "list_all isUpper us" "list_all isDigit ds"
      by (auto simp: match_uppers_iff)
    with Cons have "s = (c # us) @ ds \<and> c # us \<noteq> [] \<and> list_all isUpper (c # us) \<and> list_all isDigit ds"
      by simp
    then show "\<exists>us ds. s = us @ ds \<and> us \<noteq> [] \<and> list_all isUpper us \<and> list_all isDigit ds"
      by blast
  next
    assume "\<exists>us ds. s = us @ ds \<and> us \<noteq> [] \<and> list_all isUpper us \<and> list_all isDigit ds"
    then obtain us ds where h: "s = us @ ds" "us \<noteq> []" "list_all isUpper us" "list_all isDigit ds"
      by blast
    then obtain u us' where u: "us = u # us'" by (cases us) auto
    with h Cons have "isUpper c" "cs = us' @ ds" "list_all isUpper us'" by auto
    with h(4) Cons show "regex_test s" by (auto simp: match_uppers_iff)
  qed
qed

section \<open>Classification\<close>

lemmas test_defs = test_Signaling_def test_TranscriptionFactors_def test_Receptors_def
  test_Immune_def test_Cancer_def test_Ribosomal_def test_CellCycle_def cancerGenes_def
  endsWith_def isUpper_def isDigit_def

lemma getNodeCategory_chain:
  "getNodeCategory n =
     (if test_Signaling (node_id n) then ''Signaling''
      else if test_TranscriptionFactors (node_id n) then ''Transcription Factors''
      else if test_Receptors (node_id n) then ''Receptors''
      else if test_Immune (node_id n) then ''Immune''
      else if test_Cancer (node_id n) then ''Cancer''
      else if test_Ribosomal (node_id n) then ''Ribosomal''
      else if test_CellCycle (node_id n) then ''Cell Cycle''
      else ''Other'')"
  by (simp add: getNodeCategory_def nodeCategories_def)

lemma getNodeCategory_Cancer_iff:
  "getNodeCategory n = ''Cancer'' \<longleftrightarrow>
     \<not> test_Signaling (node_id n) \<and> \<not> test_TranscriptionFactors (node_id n)
     \<and> \<not> test_Receptors (node_id n) \<and> \<not> test_Immune (node_id n) \<and> test_Cancer (node_id n)"
  by (simp add: getNodeCategory_chain)

text \<open>
  C3. Classification is total and deterministic: the result is one of the eight category
  names, it is the name of the first of Signaling, Transcription Factors, Receptors,
  Immune, Cancer, Ribosomal, Cell Cycle whose test accepts the id, it is Other exactly
  when none of the seven tests accepts the id, and two nodes with the same id get the
  same category.
\<close>

theorem getNodeCategory_first_match:
  "getNodeCategory n \<in> set (map fst nodeCategories)
   \<and> getNodeCategory n =
       (if test_Signaling (node_id n) then ''Signaling''
        else if test_TranscriptionFactors (node_id n) then ''Transcription Factors''
        else if test_Receptors (node_id n) then ''Receptors''
        else if test_Immune (node_id n) then ''Immune''
        else if test_Cancer (node_id n) then ''Cancer''
        else if test_Ribosomal (node_id n) then ''Ribosomal''
        else if test_CellCycle (node_id n) then ''Cell Cycle''
        else ''Other'')
   \<and> (getNodeCategory n = ''Other'' \<longleftrightarrow>
        \<not> (test_Signaling (node_id n) \<or> test_TranscriptionFactors (node_id n)
           \<or> test_Receptors (node_id n) \<or> test_Immune (node_id n) \<or> test_Cancer (node_id n)
           \<or> test_Ribosomal (node_id n) \<or> test_CellCycle (node_id n)))
   \<and> (node_id m = node_id n \<longrightarrow> getNodeCategory m = getNodeCategory n)"
proof -
  have mem: "getNodeCategory n \<in> set (map fst nodeCategories)"
    by (simp add: getNodeCategory_chain nodeCategories_def)
  have other: "getNodeCategory n = ''Other'' \<longleftrightarrow>
        \<not> (test_Signaling (node_id n) \<or> test_TranscriptionFactors (node_id n)
           \<or> test_Receptors (node_id n) \<or> test_Immune (node_id n) \<or> test_Cancer (node_id n)
           \<or> test_Ribosomal (node_id n) \<or> test_CellCycle (node_id n))"
    by (simp add: getNodeCategory_chain)
  have det: "node_id m = node_id n \<longrightarrow> getNodeCategory m = getNodeCategory n"
    by (simp add: getNodeCategory_def)
  from mem other det getNodeCategory_chain [of n] show ?thesis by blast
qed

theorem getNodeCategory_first_match_witness:
  "node_id \<lparr>node_id = ''IL6'', label = ''interleukin''\<rparr> = node_id \<lparr>node_id = ''IL6'', label = ''IL6''\<rparr>
   \<and> getNodeCategory \<lparr>node_id = ''IL6'', label = ''interleukin''\<rparr> = ''Immune''
   \<and> getNodeCategory \<lparr>node_id = ''IL6'', label = ''IL6''\<rparr> = ''Immune''"
  using getNodeCategory_first_match
    [of "\<lparr>node_id = ''IL6'', label = ''IL6''\<rparr>" "\<lparr>node_id = ''IL6'', label = ''interleukin''\<rparr>"]
  by (simp add: test_defs)

text \<open>
  C4, as stated: the id \<^verbatim>\<open>EGFR\<close> classifies as Cancer. It does not.
\<close>

theorem EGFR_not_Cancer:
  "getNodeCategory \<lparr>node_id = ''EGFR'', label = ''EGFR''\<rparr> \<noteq> ''Cancer''"
  by (simp add: getNodeCategory_chain test_defs)

text \<open>
  C4, amended: the id \<^verbatim>\<open>EGFR\<close> classifies as Transcription Factors, the first category in
  the priority order whose test accepts it (four capital letters); its membership in the
  Cancer gene list is never consulted.
\<close>

theorem EGFR_Transcription_Factors:
  "getNodeCategory (n\<lparr>node_id := ''EGFR''\<rparr>) = ''Transcription Factors''
   \<and> \<not> test_Signaling ''EGFR'' \<and> test_TranscriptionFactors ''EGFR''"
  by (simp add: getNodeCategory_chain test_defs)

text \<open>
  C10. Classification returns Cancer exactly for the ids \<^verbatim>\<open>MYC\<close> and \<^verbatim>\<open>ATM\<close>; each of the
  other nine genes of the Cancer list is accepted by the test of Signaling, of
  Transcription Factors or of Receptors, which come earlier in the order.
\<close>

theorem Cancer_iff_MYC_or_ATM:
  "(getNodeCategory n = ''Cancer'' \<longleftrightarrow> node_id n = ''MYC'' \<or> node_id n = ''ATM'')
   \<and> list_all (\<lambda>g. test_Signaling g \<or> test_TranscriptionFactors g \<or> test_Receptors g)
        [''EGFR'', ''PTEN'', ''TP53'', ''CTNNB1'', ''KRAS'', ''BRAF'', ''CDKN2A'', ''PIK3CA'', ''MDM2'']
   \<and> set cancerGenes =
        set [''EGFR'', ''PTEN'', ''TP53'', ''CTNNB1'', ''KRAS'', ''BRAF'', ''CDKN2A'', ''PIK3CA'', ''MDM2'']
        \<union> {''MYC'', ''ATM''}"
proof -
  have "getNodeCategory n = ''Cancer'' \<longleftrightarrow> node_id n = ''MYC'' \<or> node_id n = ''ATM''"
    unfolding getNodeCategory_Cancer_iff by (auto simp add: test_defs)
  moreover have "list_all (\<lambda>g. test_Signaling g \<or> test_TranscriptionFactors g \<or> test_Receptors g)
        [''EGFR'', ''PTEN'', ''TP53'', ''CTNNB1'', ''KRAS'', ''BRAF'', ''CDKN2A'', ''PIK3CA'', ''MDM2'']"
    by (simp add: test_defs)
  moreover have "set cancerGenes =
        set [''EGFR'', ''PTEN'', ''TP53'', ''CTNNB1'', ''KRAS'', ''BRAF'', ''CDKN2A'', ''PIK3CA'', ''MDM2'']
        \<union> {''MYC'', ''ATM''}"
    by (auto simp add: cancerGenes_def)
  ultimately show ?thesis by blast
qed

section \<open>Degree calculation\<close>

text \<open>
  For every key other than \<^verbatim>\<open>__proto__\<close> the object behaves as a dictionary of counts; the
  key \<^verbatim>\<open>__proto__\<close> never becomes an own property.
\<close>

lemma obj_set_other: "k \<noteq> ''__proto__'' \<Longrightarrow> obj_set ob j v k = (if j = k then Some v else ob k)"
  by (simp add: obj_set_def)

lemma obj_set_proto: "obj_set ob j v ''__proto__'' = ob ''__proto__''"
  by (simp add: obj_set_def)

lemma init_fold_other:
  "k \<noteq> ''__proto__'' \<Longrightarrow>
   fold (\<lambda>n ob. obj_set ob (node_id n) (Num 0)) nodes ob0 k =
     (if k \<in> node_id ` set nodes then Some (Num 0) else ob0 k)"
  by (induction nodes arbitrary: ob0) (auto simp: obj_set_other)

lemma init_degrees_node:
  "n \<in> set nodes \<Longrightarrow> node_id n \<noteq> ''__proto__'' \<Longrightarrow> init_degrees nodes (node_id n) = Some (Num 0)"
  by (simp add: init_degrees_def init_fold_other)

lemma init_fold_proto:
  "fold (\<lambda>n ob. obj_set ob (node_id n) (Num 0)) nodes ob0 ''__proto__'' = ob0 ''__proto__''"
  by (induction nodes arbitrary: ob0) (auto simp: obj_set_proto)

lemma count_edge_num:
  assumes "k \<noteq> ''__proto__''" and "ob k = Some (Num c)"
  shows "count_edge e ob k =
           Some (Num (c + (if property_key (source e) = k then 1 else 0) + (if property_key (target e) = k then 1 else 0)))"
  using assms by (simp add: count_edge_def Let_def obj_set_other obj_get_def)

lemma count_edge_proto: "count_edge e ob ''__proto__'' = ob ''__proto__''"
  by (simp add: count_edge_def Let_def obj_set_proto)

lemma fold_count_edge_num:
  "k \<noteq> ''__proto__'' \<Longrightarrow> ob k = Some (Num c) \<Longrightarrow>
   fold count_edge edges ob k =
     Some (Num (c + length (filter (\<lambda>e. property_key (source e) = k) edges)
                 + length (filter (\<lambda>e. property_key (target e) = k) edges)))"
proof (induction edges arbitrary: ob c)
  case Nil
  then show ?case by simp
next
  case (Cons e es)
  have "count_edge e ob k =
          Some (Num (c + (if property_key (source e) = k then 1 else 0) + (if property_key (target e) = k then 1 else 0)))"
    using Cons.prems by (rule count_edge_num)
  with Cons.prems(1) have "fold count_edge es (count_edge e ob) k =
      Some (Num (c + (if property_key (source e) = k then 1 else 0) + (if property_key (target e) = k then 1 else 0)
                 + length (filter (\<lambda>e. property_key (source e) = k) es)
                 + length (filter (\<lambda>e. property_key (target e) = k) es)))"
    by (rule Cons.IH)
  then show ?case by simp
qed

lemma fold_count_edge_proto: "fold count_edge edges ob ''__proto__'' = ob ''__proto__''"
  by (induction edges arbitrary: ob) (auto simp: count_edge_proto)

lemma nodeDegrees_node:
  assumes "n \<in> set nodes" and "node_id n \<noteq> ''__proto__''"
  shows "nodeDegrees nodes edges (node_id n) =
     Some (Num (length (filter (\<lambda>e. property_key (source e) = node_id n) edges)
                 + length (filter (\<lambda>e. property_key (target e) = node_id n) edges)))"
proof -
  have "init_degrees nodes (node_id n) = Some (Num 0)"
    using assms by (rule init_degrees_node)
  with assms(2) have "fold count_edge edges (init_degrees nodes) (node_id n) =
     Some (Num (0 + length (filter (\<lambda>e. property_key (source e) = node_id n) edges)
                 + length (filter (\<lambda>e. property_key (target e) = node_id n) edges)))"
    by (rule fold_count_edge_num)
  then show ?thesis by (simp add: nodeDegrees_def)
qed

lemma nodeDegrees_proto: "nodeDegrees nodes edges ''__proto__'' = None"
  by (simp add: nodeDegrees_def fold_count_edge_proto init_degrees_def init_fold_proto)

lemma degree_correct:
  assumes "i < length nodes" and "node_id (nodes ! i) \<noteq> ''__proto__''"
  shows "degree (withDegrees nodes edges ! i) =
     Num (length (filter (\<lambda>e. property_key (source e) = node_id (nodes ! i)) edges)
           + length (filter (\<lambda>e. property_key (target e) = node_id (nodes ! i)) edges))"
proof -
  have "nodes ! i \<in> set nodes" using assms(1) by simp
  from nodeDegrees_node [OF this assms(2), of edges] assms(1)
  show ?thesis by (simp add: withDegrees_def addDegree_def obj_get_def)
qed

lemma degree_proto:
  assumes "i < length nodes" and "node_id (nodes ! i) = ''__proto__''"
  shows "degree (withDegrees nodes edges ! i) = NotNum"
  using assms by (simp add: withDegrees_def addDegree_def obj_get_def nodeDegrees_proto objectPrototypeKeys_def)

text \<open>
  C2. The claim: the computed degree of every node is the number of edges with the node's
  id as source plus the number with it as target. Evaluated on the graph with the nodes
  \<^verbatim>\<open>A\<close> and \<^verbatim>\<open>__proto__\<close> and one edge from \<^verbatim>\<open>A\<close> to \<^verbatim>\<open>__proto__\<close>: node \<^verbatim>\<open>A\<close> gets
  degree 1, but the degree of node \<^verbatim>\<open>__proto__\<close> is not a number, where the claim says 1.
\<close>

theorem withDegrees_proto_node:
  "withDegrees [\<lparr>node_id = ''A'', label = ''a''\<rparr>, \<lparr>node_id = ''__proto__'', label = ''p''\<rparr>]
               [\<lparr>source = Id ''A'', target = Id ''__proto__'', edge_id = 0, weight = Fin 0.001\<rparr>] =
     [\<lparr>node_id = ''A'', label = ''a'', degree = Num 1\<rparr>,
      \<lparr>node_id = ''__proto__'', label = ''p'', degree = NotNum\<rparr>]"
  by (simp add: withDegrees_def addDegree_def obj_get_def nodeDegrees_def init_degrees_def
      count_edge_def obj_set_def objectPrototypeKeys_def)

section \<open>Filtering\<close>

text \<open>The \<^verbatim>\<open>Set\<close> of visible ids holds exactly the ids of the visible nodes.\<close>

lemma fold_set_add: "set (fold (\<lambda>k s. set_add s k) ks acc) = set acc \<union> set ks"
  by (induction ks arbitrary: acc) (auto simp: set_add_def)

lemma fold_set_add_distinct: "distinct acc \<Longrightarrow> distinct (fold (\<lambda>k s. set_add s k) ks acc)"
  by (induction ks arbitrary: acc) (auto simp: set_add_def)

lemma set_newSet: "set (newSet ks) = set ks"
  by (simp add: newSet_def fold_set_add)

lemma distinct_newSet: "distinct (newSet ks)"
  by (simp add: newSet_def fold_set_add_distinct)

lemma set_has_filteredNodeIds:
  "set_has (filteredNodeIds nodes dt) p \<longleftrightarrow>
     (case p of Id k \<Rightarrow> k \<in> node_id ` set (filteredNodes nodes dt) | NodeRef k \<Rightarrow> False)"
  by (cases p) (simp_all add: filteredNodeIds_def set_newSet)

lemma js_gt_ge_trans: "js_gt a t2 \<Longrightarrow> js_ge t2 t1 \<Longrightarrow> js_gt a t1"
  by (cases a; cases t2; cases t1) auto

lemma js_ge_trans: "js_ge a t2 \<Longrightarrow> js_ge t2 t1 \<Longrightarrow> js_ge a t1"
  by (cases a; cases t2; cases t1) auto



lemma length_filter_mono:
  "(\<And>a. a \<in> set xs \<Longrightarrow> P a \<Longrightarrow> Q a) \<Longrightarrow> length (filter P xs) \<le> length (filter Q xs)"
  by (induction xs) auto





lemma filteredEdges_parsed:
  assumes "\<And>e. e \<in> set edges \<Longrightarrow> \<exists>a b. source e = Id a \<and> target e = Id b"
  shows "filteredEdges nodes edges dt wt =
     filter (\<lambda>e. js_ge (weight e) wt
                \<and> property_key (source e) \<in> node_id ` set (filteredNodes nodes dt)
                \<and> property_key (target e) \<in> node_id ` set (filteredNodes nodes dt)) edges"
  unfolding filteredEdges_def set_has_filteredNodeIds
proof (rule filter_cong [OF refl])
  fix e
  assume "e \<in> set edges"
  then obtain a b where "source e = Id a" "target e = Id b"
    using assms by blast
  then show "(js_ge (weight e) wt
       \<and> (case source e of Id k \<Rightarrow> k \<in> node_id ` set (filteredNodes nodes dt) | NodeRef k \<Rightarrow> False)
       \<and> (case target e of Id k \<Rightarrow> k \<in> node_id ` set (filteredNodes nodes dt) | NodeRef k \<Rightarrow> False))
     = (js_ge (weight e) wt
       \<and> property_key (source e) \<in> node_id ` set (filteredNodes nodes dt)
       \<and> property_key (target e) \<in> node_id ` set (filteredNodes nodes dt))"
    by simp
qed

text \<open>
  An edge that one run of the effect has shown is not shown by any later run, whatever the
  thresholds: its source is a node object by then.
\<close>

lemma set_has_link_endpoint: "\<not> set_has s (link_endpoint p)"
  by (cases p) simp_all

lemma rerun_shows_no_shown_edge:
  assumes "e \<in> set (filteredEdges nodes (edges_after_effect nodes edges dt wt) dt' wt')"
  shows "e \<in> set edges \<and> e \<notin> set (filteredEdges nodes edges dt wt)"
proof -
  let ?shown = "\<lambda>e. js_ge (weight e) wt \<and> set_has (filteredNodeIds nodes dt) (source e)
                      \<and> set_has (filteredNodeIds nodes dt) (target e)"
  from assms obtain e0 where e0: "e0 \<in> set edges" "e = (if ?shown e0 then forceLink e0 else e0)"
    and src: "set_has (filteredNodeIds nodes dt') (source e)"
    by (auto simp: filteredEdges_def edges_after_effect_def)
  have "\<not> ?shown e0"
  proof
    assume "?shown e0"
    with e0 have "source e = link_endpoint (source e0)" by (simp add: forceLink_def)
    with src show False by (simp add: set_has_link_endpoint)
  qed
  with e0 show ?thesis by (simp add: filteredEdges_def)
qed

text \<open>
  C1. The claim: for every node set, edge set and threshold pair, the visible edges are
  the edges whose weight is greater than or equal to the weight threshold and whose source
  id and target id are ids of visible nodes. Evaluated on the graph with the nodes
  \<^verbatim>\<open>A\<close>, \<^verbatim>\<open>B\<close>, \<^verbatim>\<open>C\<close> and the edges \<^verbatim>\<open>A-B\<close> of weight 0.001 and \<^verbatim>\<open>B-C\<close> of weight 0.0005:
  the first run of the effect, with the initial thresholds 0 and 0.0008, shows the edge
  \<^verbatim>\<open>A-B\<close> and leaves it with node objects as source and target; the next run, with the
  weight threshold lowered to 0.0007, shows no edge, where the claim says \<^verbatim>\<open>A-B\<close>.
\<close>

theorem filteredEdges_rerun_drops_edge:
  "filteredEdges
     [\<lparr>node_id = ''A'', label = ''A'', degree = Num 1\<rparr>,
      \<lparr>node_id = ''B'', label = ''B'', degree = Num 2\<rparr>,
      \<lparr>node_id = ''C'', label = ''C'', degree = Num 1\<rparr>]
     [\<lparr>source = Id ''A'', target = Id ''B'', edge_id = 0, weight = Fin 0.001\<rparr>,
      \<lparr>source = Id ''B'', target = Id ''C'', edge_id = 1, weight = Fin 0.0005\<rparr>]
     (Fin 0) (Fin 0.0008)
   = [\<lparr>source = Id ''A'', target = Id ''B'', edge_id = 0, weight = Fin 0.001\<rparr>]
   \<and> edges_after_effect
     [\<lparr>node_id = ''A'', label = ''A'', degree = Num 1\<rparr>,
      \<lparr>node_id = ''B'', label = ''B'', degree = Num 2\<rparr>,
      \<lparr>node_id = ''C'', label = ''C'', degree = Num 1\<rparr>]
     [\<lparr>source = Id ''A'', target = Id ''B'', edge_id = 0, weight = Fin 0.001\<rparr>,
      \<lparr>source = Id ''B'', target = Id ''C'', edge_id = 1, weight = Fin 0.0005\<rparr>]
     (Fin 0) (Fin 0.0008)
   = [\<lparr>source = NodeRef ''A'', target = NodeRef ''B'', edge_id = 0, weight = Fin 0.001\<rparr>,
      \<lparr>source = Id ''B'', target = Id ''C'', edge_id = 1, weight = Fin 0.0005\<rparr>]
   \<and> filteredEdges
     [\<lparr>node_id = ''A'', label = ''A'', degree = Num 1\<rparr>,
      \<lparr>node_id = ''B'', label = ''B'', degree = Num 2\<rparr>,
      \<lparr>node_id = ''C'', label = ''C'', degree = Num 1\<rparr>]
     (edges_after_effect
       [\<lparr>node_id = ''A'', label = ''A'', degree = Num 1\<rparr>,
        \<lparr>node_id = ''B'', label = ''B'', degree = Num 2\<rparr>,
        \<lparr>node_id = ''C'', label = ''C'', degree = Num 1\<rparr>]
       [\<lparr>source = Id ''A'', target = Id ''B'', edge_id = 0, weight = Fin 0.001\<rparr>,
        \<lparr>source = Id ''B'', target = Id ''C'', edge_id = 1, weight = Fin 0.0005\<rparr>]
       (Fin 0) (Fin 0.0008))
     (Fin 0) (Fin 0.0007)
   = []"
  by (simp add: filteredNodes_def filteredEdges_def filteredNodeIds_def newSet_def set_add_def
      edges_after_effect_def forceLink_def)

text \<open>
  C7. For a fixed graph, raising the degree threshold does not increase the number of
  visible nodes, and raising the weight threshold, with the degree threshold fixed, does
  not increase the number of visible edges.
\<close>

theorem filter_monotone:
  "(js_ge dt2 dt1 \<longrightarrow> length (filteredNodes nodes dt2) \<le> length (filteredNodes nodes dt1))
   \<and> (js_ge wt2 wt1 \<longrightarrow>
        length (filteredEdges nodes edges dt wt2) \<le> length (filteredEdges nodes edges dt wt1))"
proof (intro conjI impI)
  assume "js_ge dt2 dt1"
  then show "length (filteredNodes nodes dt2) \<le> length (filteredNodes nodes dt1)"
    unfolding filteredNodes_def by (intro length_filter_mono) (rule js_gt_ge_trans)
next
  assume "js_ge wt2 wt1"
  then show "length (filteredEdges nodes edges dt wt2) \<le> length (filteredEdges nodes edges dt wt1)"
    unfolding filteredEdges_def by (intro length_filter_mono) (auto intro: js_ge_trans)
qed

theorem filter_monotone_witness:
  "js_ge (Fin 1) (Fin 0)
   \<and> length (filteredNodes
     [\<lparr>node_id = ''A'', label = ''A'', degree = Num 1\<rparr>,
      \<lparr>node_id = ''B'', label = ''B'', degree = Num 2\<rparr>,
      \<lparr>node_id = ''C'', label = ''C'', degree = Num 1\<rparr>] (Fin 1)) = 1
   \<and> length (filteredNodes
     [\<lparr>node_id = ''A'', label = ''A'', degree = Num 1\<rparr>,
      \<lparr>node_id = ''B'', label = ''B'', degree = Num 2\<rparr>,
      \<lparr>node_id = ''C'', label = ''C'', degree = Num 1\<rparr>] (Fin 0)) = 3
   \<and> js_ge (Fin 0.0007) (Fin 0.0004)
   \<and> length (filteredEdges
     [\<lparr>node_id = ''A'', label = ''A'', degree = Num 1\<rparr>,
      \<lparr>node_id = ''B'', label = ''B'', degree = Num 2\<rparr>,
      \<lparr>node_id = ''C'', label = ''C'', degree = Num 1\<rparr>]
     [\<lparr>source = Id ''A'', target = Id ''B'', edge_id = 0, weight = Fin 0.001\<rparr>,
      \<lparr>source = Id ''B'', target = Id ''C'', edge_id = 1, weight = Fin 0.0005\<rparr>] (Fin 0) (Fin 0.0007)) = 1
   \<and> length (filteredEdges
     [\<lparr>node_id = ''A'', label = ''A'', degree = Num 1\<rparr>,
      \<lparr>node_id = ''B'', label = ''B'', degree = Num 2\<rparr>,
      \<lparr>node_id = ''C'', label = ''C'', degree = Num 1\<rparr>]
     [\<lparr>source = Id ''A'', target = Id ''B'', edge_id = 0, weight = Fin 0.001\<rparr>,
      \<lparr>source = Id ''B'', target = Id ''C'', edge_id = 1, weight = Fin 0.0005\<rparr>] (Fin 0) (Fin 0.0004)) = 2"
  using filter_monotone [of "Fin 1" "Fin 0" "[\<lparr>node_id = ''A'', label = ''A'', degree = Num 1\<rparr>,
      \<lparr>node_id = ''B'', label = ''B'', degree = Num 2\<rparr>,
      \<lparr>node_id = ''C'', label = ''C'', degree = Num 1\<rparr>]" "Fin 0.0007" "Fin 0.0004"
     "[\<lparr>source = Id ''A'', target = Id ''B'', edge_id = 0, weight = Fin 0.001\<rparr>,
      \<lparr>source = Id ''B'', target = Id ''C'', edge_id = 1, weight = Fin 0.0005\<rparr>]" "Fin 0"]
  by (simp add: filteredNodes_def filteredEdges_def filteredNodeIds_def newSet_def set_add_def)




section \<open>Simulation tick\<close>

lemma length_tick: "length (tick F decay nodes) = length nodes"
  by (simp add: tick_def tick_handler_def simulation_step_def apply_forces_def)

lemma length_ticks: "length (ticks Fs decay k nodes) = length nodes"
  by (induction k) (simp_all add: length_tick)

lemma tick_node_bounds:
  "5 \<le> x (tick_node d) \<and> x (tick_node d) \<le> width - 5
   \<and> 5 \<le> y (tick_node d) \<and> y (tick_node d) \<le> height - 5"
  by (simp add: tick_node_def width_def height_def)

text \<open>
  C6, as stated: after every step each node's rendered position lies within its own
  radius of the border. A node of degree 4 has radius 7; at \<open>x = 2\<close> the handler moves it
  to \<open>x = 5\<close>, closer to the border than its radius.
\<close>

theorem tick_handler_radius_counterexample:
  "x (hd (tick_handler [\<lparr>node_id = ''A'', label = ''A'', degree = Num 4, x = 2, y = 300,
          vx = 0, vy = 0, fx = None, fy = None\<rparr>])) = 5
   \<and> radius (hd (tick_handler [\<lparr>node_id = ''A'', label = ''A'', degree = Num 4, x = 2, y = 300,
          vx = 0, vy = 0, fx = None, fy = None\<rparr>])) = Fin 7
   \<and> \<not> js_ge (Fin (x (hd (tick_handler [\<lparr>node_id = ''A'', label = ''A'', degree = Num 4, x = 2,
          y = 300, vx = 0, vy = 0, fx = None, fy = None\<rparr>]))))
        (radius (hd (tick_handler [\<lparr>node_id = ''A'', label = ''A'', degree = Num 4, x = 2, y = 300,
          vx = 0, vy = 0, fx = None, fy = None\<rparr>])))"
  by (simp add: tick_handler_def tick_node_def radius_def width_def height_def)

text \<open>
  C6, amended: after the tick handler has run, whatever the step did, each node's rendered
  position lies within \<open>[5, width - 5]\<close> on the x axis and \<open>[5, height - 5]\<close> on the y axis;
  the margin is the constant 5, not the node's own radius.
\<close>

theorem tick_handler_margin:
  "d \<in> set (tick_handler nodes) \<Longrightarrow>
     5 \<le> x d \<and> x d \<le> width - 5 \<and> 5 \<le> y d \<and> y d \<le> height - 5"
  using tick_node_bounds by (auto simp: tick_handler_def)

theorem tick_handler_margin_witness:
  "\<lparr>node_id = ''A'', label = ''A'', degree = Num 4, x = 5, y = 595, vx = 0, vy = 0, fx = None, fy = None\<rparr>
     \<in> set (tick_handler [\<lparr>node_id = ''A'', label = ''A'', degree = Num 4, x = 2, y = 700, vx = 0, vy = 0,
          fx = None, fy = None\<rparr>])
   \<and> (5::real) \<le> 5 \<and> (5 :: real) \<le> width - 5 \<and> (5::real) \<le> 595 \<and> (595::real) \<le> height - 5"
  using tick_handler_margin [of "\<lparr>node_id = ''A'', label = ''A'', degree = Num 4, x = 5, y = 595, vx = 0, vy = 0, fx = None, fy = None\<rparr>"
     "[\<lparr>node_id = ''A'', label = ''A'', degree = Num 4, x = 2, y = 700, vx = 0, vy = 0,
          fx = None, fy = None\<rparr>]"]
  by (simp add: tick_handler_def tick_node_def width_def height_def)

lemma ticks_margin:
  "d \<in> set (ticks Fs decay (Suc k) nodes) \<Longrightarrow>
     5 \<le> x d \<and> x d \<le> width - 5 \<and> 5 \<le> y d \<and> y d \<le> height - 5"
  using tick_node_bounds by (auto simp: tick_def tick_handler_def)

lemma integrate_pin:
  "fx (integrate decay d) = fx d \<and> fy (integrate decay d) = fy d
   \<and> x (integrate decay d) = (case fx d of None \<Rightarrow> x d + vx d * decay | Some p \<Rightarrow> p)
   \<and> y (integrate decay d) = (case fy d of None \<Rightarrow> y d + vy d * decay | Some p \<Rightarrow> p)"
  by (simp add: integrate_def Let_def split: option.splits)

lemma apply_forces_pin:
  "i < length nodes \<Longrightarrow>
   fx (apply_forces F nodes ! i) = fx (nodes ! i) \<and> fy (apply_forces F nodes ! i) = fy (nodes ! i)"
  by (simp add: apply_forces_def split: prod.splits)

lemma tick_pin:
  assumes "i < length nodes"
  shows "fx (tick F decay nodes ! i) = fx (nodes ! i)"
    and "fy (tick F decay nodes ! i) = fy (nodes ! i)"
    and "fx (nodes ! i) = Some a \<Longrightarrow> x (tick F decay nodes ! i) = max 5 (min (width - 5) a)"
    and "fy (nodes ! i) = Some b \<Longrightarrow> y (tick F decay nodes ! i) = max 5 (min (height - 5) b)"
  using assms apply_forces_pin [OF assms, of F]
  by (simp_all add: tick_def tick_handler_def simulation_step_def tick_node_def integrate_pin
      apply_forces_def)

lemma ticks_pin:
  "i < length nodes \<Longrightarrow> fx (ticks Fs decay k nodes ! i) = fx (nodes ! i)
     \<and> fy (ticks Fs decay k nodes ! i) = fy (nodes ! i)"
  by (induction k) (simp_all add: tick_pin length_ticks)

text \<open>
  C5, as stated: the rendered position of a pinned node equals its pin exactly after each
  step, also for a pin outside the canvas. A node pinned at \<open>(1000, 300)\<close> is rendered at
  \<open>(795, 300)\<close> after one tick, while its pin is still \<open>(1000, 300)\<close>.
\<close>

theorem pinned_position_counterexample:
  "x (hd (tick no_forces 0.6
        [\<lparr>node_id = ''A'', label = ''A'', degree = Num 1, x = 400, y = 300, vx = 0, vy = 0,
          fx = Some 1000, fy = Some 300\<rparr>])) = 795
   \<and> y (hd (tick no_forces 0.6
        [\<lparr>node_id = ''A'', label = ''A'', degree = Num 1, x = 400, y = 300, vx = 0, vy = 0,
          fx = Some 1000, fy = Some 300\<rparr>])) = 300
   \<and> fx (hd (tick no_forces 0.6
        [\<lparr>node_id = ''A'', label = ''A'', degree = Num 1, x = 400, y = 300, vx = 0, vy = 0,
          fx = Some 1000, fy = Some 300\<rparr>])) = Some 1000"
  by (simp add: tick_def tick_handler_def simulation_step_def apply_forces_def no_forces_def
      integrate_def tick_node_def width_def height_def)

text \<open>
  C5, amended: for every node whose \<open>fx\<close> and \<open>fy\<close> are non-null, after any positive number
  of ticks and whatever the forces, the rendered position is the pin clamped to
  \<open>[5, width - 5]\<close> and \<open>[5, height - 5]\<close>; it equals the pin exactly when the pin lies
  within these bounds.
\<close>

theorem pinned_position_clamped:
  assumes "i < length nodes" and "fx (nodes ! i) = Some a" and "fy (nodes ! i) = Some b"
  shows "x (ticks Fs decay (Suc k) nodes ! i) = max 5 (min (width - 5) a)
       \<and> y (ticks Fs decay (Suc k) nodes ! i) = max 5 (min (height - 5) b)
       \<and> (5 \<le> a \<and> a \<le> width - 5 \<and> 5 \<le> b \<and> b \<le> height - 5 \<longrightarrow>
            x (ticks Fs decay (Suc k) nodes ! i) = a \<and> y (ticks Fs decay (Suc k) nodes ! i) = b)"
proof -
  let ?prev = "ticks Fs decay k nodes"
  have len: "i < length ?prev" using assms(1) by (simp add: length_ticks)
  have "fx (?prev ! i) = Some a" "fy (?prev ! i) = Some b"
    using assms ticks_pin [of i nodes Fs decay k] by simp_all
  with len have "x (tick (Fs k) decay ?prev ! i) = max 5 (min (width - 5) a)"
    "y (tick (Fs k) decay ?prev ! i) = max 5 (min (height - 5) b)"
    by (simp_all add: tick_pin)
  then show ?thesis by auto
qed

theorem pinned_position_clamped_witness:
  "(0::nat) < length [\<lparr>node_id = ''A'', label = ''A'', degree = Num 1, x = 400, y = 300, vx = 3, vy = 4,
          fx = Some 50, fy = Some 1000\<rparr>]
  \<and> x (ticks (\<lambda>k. no_forces) 0.6 (Suc 2) [\<lparr>node_id = ''A'', label = ''A'', degree = Num 1, x = 400, y = 300, vx = 3, vy = 4,
          fx = Some 50, fy = Some 1000\<rparr>] ! 0) = 50
  \<and> y (ticks (\<lambda>k. no_forces) 0.6 (Suc 2) [\<lparr>node_id = ''A'', label = ''A'', degree = Num 1, x = 400, y = 300, vx = 3, vy = 4,
          fx = Some 50, fy = Some 1000\<rparr>] ! 0) = 595"
  using pinned_position_clamped [of 0 "[\<lparr>node_id = ''A'', label = ''A'', degree = Num 1, x = 400, y = 300, vx = 3, vy = 4,
          fx = Some 50, fy = Some 1000\<rparr>]" 50 1000 "\<lambda>k. no_forces" "0.6" 2]
  by (simp add: width_def height_def)

section \<open>Drag handlers\<close>

text \<open>
  C8. On drag start, if no other drag is active, the alpha target becomes positive and
  stepping resumes, and the node is pinned at its current position; on every drag move
  the pin is set to the pointer coordinates; on drag end, if no other drag is active, the
  alpha target is set back to 0, and the pin is cleared. Each handler changes nothing
  else: the node it returns is the dragged node with only \<open>fx\<close> and \<open>fy\<close> changed, the
  simulation is touched only when no other drag is active, a drag move leaves it as it
  is, and a drag end does not stop the stepping.
\<close>

theorem drag_lifecycle:
  "(active event = 0 \<longrightarrow> 0 < alphaTarget (fst (dragstarted event sim)) \<and> stepping (fst (dragstarted event sim)))
   \<and> fx (snd (dragstarted event sim)) = Some (x (subject event))
   \<and> fy (snd (dragstarted event sim)) = Some (y (subject event))
   \<and> fx (snd (dragged event sim)) = Some (event_x event)
   \<and> fy (snd (dragged event sim)) = Some (event_y event)
   \<and> (active event = 0 \<longrightarrow> alphaTarget (fst (dragended event sim)) = 0)
   \<and> fx (snd (dragended event sim)) = None
   \<and> fy (snd (dragended event sim)) = None
   \<and> (active event = 0 \<longrightarrow>
        fst (dragstarted event sim) = sim\<lparr>alphaTarget := 0.3, stepping := True\<rparr>)
   \<and> (active event \<noteq> 0 \<longrightarrow> fst (dragstarted event sim) = sim)
   \<and> snd (dragstarted event sim) =
        (subject event)\<lparr>fx := Some (x (subject event)), fy := Some (y (subject event))\<rparr>
   \<and> fst (dragged event sim) = sim
   \<and> snd (dragged event sim) =
        (subject event)\<lparr>fx := Some (event_x event), fy := Some (event_y event)\<rparr>
   \<and> (active event = 0 \<longrightarrow> fst (dragended event sim) = sim\<lparr>alphaTarget := 0\<rparr>)
   \<and> (active event \<noteq> 0 \<longrightarrow> fst (dragended event sim) = sim)
   \<and> stepping (fst (dragended event sim)) = stepping sim
   \<and> snd (dragended event sim) = (subject event)\<lparr>fx := None, fy := None\<rparr>"
  by (simp add: dragstarted_def dragged_def dragended_def)

text \<open>
  A drag of a node at \<open>(400, 300)\<close> to the pointer position \<open>(50, 60)\<close>: started and ended
  with no other drag active, and ended while another drag is active.
\<close>

theorem drag_lifecycle_witness:
  "active \<lparr>active = 0, subject = \<lparr>node_id = ''A'', label = ''A'', degree = Num 1, x = 400, y = 300,
          vx = 3, vy = 4, fx = None, fy = None\<rparr>, event_x = 50, event_y = 60\<rparr> = 0
   \<and> dragstarted \<lparr>active = 0, subject = \<lparr>node_id = ''A'', label = ''A'', degree = Num 1, x = 400,
          y = 300, vx = 3, vy = 4, fx = None, fy = None\<rparr>, event_x = 50, event_y = 60\<rparr>
        \<lparr>alphaTarget = 0, stepping = False\<rparr>
      = (\<lparr>alphaTarget = 0.3, stepping = True\<rparr>,
         \<lparr>node_id = ''A'', label = ''A'', degree = Num 1, x = 400, y = 300, vx = 3, vy = 4,
          fx = Some 400, fy = Some 300\<rparr>)
   \<and> dragged \<lparr>active = 0, subject = \<lparr>node_id = ''A'', label = ''A'', degree = Num 1, x = 400,
          y = 300, vx = 3, vy = 4, fx = Some 400, fy = Some 300\<rparr>, event_x = 50, event_y = 60\<rparr>
        \<lparr>alphaTarget = 0.3, stepping = True\<rparr>
      = (\<lparr>alphaTarget = 0.3, stepping = True\<rparr>,
         \<lparr>node_id = ''A'', label = ''A'', degree = Num 1, x = 400, y = 300, vx = 3, vy = 4,
          fx = Some 50, fy = Some 60\<rparr>)
   \<and> dragended \<lparr>active = 0, subject = \<lparr>node_id = ''A'', label = ''A'', degree = Num 1, x = 50,
          y = 60, vx = 0, vy = 0, fx = Some 50, fy = Some 60\<rparr>, event_x = 50, event_y = 60\<rparr>
        \<lparr>alphaTarget = 0.3, stepping = True\<rparr>
      = (\<lparr>alphaTarget = 0, stepping = True\<rparr>,
         \<lparr>node_id = ''A'', label = ''A'', degree = Num 1, x = 50, y = 60, vx = 0, vy = 0,
          fx = None, fy = None\<rparr>)
   \<and> active \<lparr>active = 1, subject = \<lparr>node_id = ''A'', label = ''A'', degree = Num 1, x = 50, y = 60,
          vx = 0, vy = 0, fx = Some 50, fy = Some 60\<rparr>, event_x = 50, event_y = 60\<rparr> \<noteq> 0
   \<and> dragended \<lparr>active = 1, subject = \<lparr>node_id = ''A'', label = ''A'', degree = Num 1, x = 50,
          y = 60, vx = 0, vy = 0, fx = Some 50, fy = Some 60\<rparr>, event_x = 50, event_y = 60\<rparr>
        \<lparr>alphaTarget = 0.3, stepping = True\<rparr>
      = (\<lparr>alphaTarget = 0.3, stepping = True\<rparr>,
         \<lparr>node_id = ''A'', label = ''A'', degree = Num 1, x = 50, y = 60, vx = 0, vy = 0,
          fx = None, fy = None\<rparr>)"
  using
    drag_lifecycle [of "\<lparr>active = 0, subject = \<lparr>node_id = ''A'', label = ''A'', degree = Num 1,
          x = 400, y = 300, vx = 3, vy = 4, fx = None, fy = None\<rparr>, event_x = 50, event_y = 60\<rparr>"
        "\<lparr>alphaTarget = 0, stepping = False\<rparr>"]
    drag_lifecycle [of "\<lparr>active = 0, subject = \<lparr>node_id = ''A'', label = ''A'', degree = Num 1,
          x = 400, y = 300, vx = 3, vy = 4, fx = Some 400, fy = Some 300\<rparr>, event_x = 50, event_y = 60\<rparr>"
        "\<lparr>alphaTarget = 0.3, stepping = True\<rparr>"]
    drag_lifecycle [of "\<lparr>active = 0, subject = \<lparr>node_id = ''A'', label = ''A'', degree = Num 1,
          x = 50, y = 60, vx = 0, vy = 0, fx = Some 50, fy = Some 60\<rparr>, event_x = 50, event_y = 60\<rparr>"
        "\<lparr>alphaTarget = 0.3, stepping = True\<rparr>"]
    drag_lifecycle [of "\<lparr>active = 1, subject = \<lparr>node_id = ''A'', label = ''A'', degree = Num 1,
          x = 50, y = 60, vx = 0, vy = 0, fx = Some 50, fy = Some 60\<rparr>, event_x = 50, event_y = 60\<rparr>"
        "\<lparr>alphaTarget = 0.3, stepping = True\<rparr>"]
  by (simp add: dragstarted_def dragged_def dragended_def)

end
